theory Spec2Isabelle
  imports Complex_Main
begin

text \<open>
  A model of the pincode checker: the scan for the nearest warehouse
  (\<open>findNearestLocation\<close>), the extraction of the inventory records, the two-tier
  selection, and the two handlers around them, with the answers of the geocoding and
  commerce services, geolib's distance and \<^verbatim>\<open>parseFloat\<close> as parameters.
\<close>

section \<open>JavaScript numbers and objects\<close>

text \<open>
  A JavaScript number, as far as the comparison \<^verbatim>\<open><\<close> can tell numbers apart:
  \<open>NaN\<close>, the two infinities, and the finite values (every finite double is a real
  number, and \<^verbatim>\<open><\<close> on finite doubles is the order of the reals).
\<close>

datatype number = NaN | NegInfinity | Finite real | Infinity

text \<open>\<^verbatim>\<open>x < y\<close> on numbers: false as soon as one side is \<open>NaN\<close>.\<close>

fun js_lt :: "number \<Rightarrow> number \<Rightarrow> bool" where
  "js_lt (Finite x) (Finite y) = (x < y)"
| "js_lt (Finite x) Infinity = True"
| "js_lt NegInfinity (Finite y) = True"
| "js_lt NegInfinity Infinity = True"
| "js_lt _ _ = False"

text \<open>\<^verbatim>\<open>x <= y\<close> on numbers.\<close>

definition js_le :: "number \<Rightarrow> number \<Rightarrow> bool" where
  "js_le x y = (x \<noteq> NaN \<and> y \<noteq> NaN \<and> (x = y \<or> js_lt x y))"

text \<open>
  An object literal is the list of its properties in the order they were written.
  \<^verbatim>\<open>Object.entries\<close> does not keep that order: the keys that are array indices
  (canonical decimal numerals below \<open>2^32 - 1\<close>) come first, in ascending numeric
  order, and the other string keys follow in the order they were written.
\<close>

definition digit :: "char \<Rightarrow> bool" where
  "digit c = (48 \<le> (of_char c :: nat) \<and> (of_char c :: nat) \<le> 57)"

definition decimal :: "string \<Rightarrow> nat" where
  "decimal k = foldl (\<lambda>n c. 10 * n + ((of_char c :: nat) - 48)) 0 k"

definition arrayIndex :: "string \<Rightarrow> bool" where
  "arrayIndex k =
     (case k of
        [] \<Rightarrow> False
      | c # cs \<Rightarrow> list_all digit k \<and> (c \<noteq> CHR ''0'' \<or> cs = []) \<and> decimal k < 2 ^ 32 - 1)"

definition Object_entries :: "(string \<times> 'a) list \<Rightarrow> (string \<times> 'a) list" where
  "Object_entries obj =
     sort_key (\<lambda>entry. decimal (fst entry)) (filter (\<lambda>entry. arrayIndex (fst entry)) obj)
     @ filter (\<lambda>entry. \<not> arrayIndex (fst entry)) obj"

section \<open>findNearestLocation\<close>

text \<open>
  \<^verbatim>\<open>findNearestLocation(userCoordinates, warehouseCoordinates)\<close> is the same text in
  \<^verbatim>\<open>netlify/functions/checkPincode.js\<close> and in the second handler file. \<^verbatim>\<open>getDistance\<close>
  is the geolib function: it is not part of the repository and is a parameter here.
\<close>

record coords =
  latitude :: number
  longitude :: number

text \<open>The object \<^verbatim>\<open>{ pincode, coords }\<close> that the scan returns.\<close>

record location =
  location_pincode :: string
  location_coords :: coords

text \<open>The two variables the \<^verbatim>\<open>forEach\<close> callback assigns.\<close>

record scan =
  nearestLocation :: "location option"
  minDistance :: number

definition forEach_callback ::
  "(coords \<Rightarrow> coords \<Rightarrow> number) \<Rightarrow> coords \<Rightarrow> scan \<Rightarrow> string \<times> coords \<Rightarrow> scan" where
  "forEach_callback getDistance userCoordinates s entry =
     (let distance = getDistance userCoordinates (snd entry) in
      if js_lt distance (minDistance s)
      then \<lparr>nearestLocation =
              Some \<lparr>location_pincode = fst entry, location_coords = snd entry\<rparr>,
            minDistance = distance\<rparr>
      else s)"

definition findNearestLocation ::
  "(coords \<Rightarrow> coords \<Rightarrow> number) \<Rightarrow> coords \<Rightarrow> (string \<times> coords) list \<Rightarrow> location option" where
  "findNearestLocation getDistance userCoordinates warehouseCoordinates =
     nearestLocation
       (foldl (forEach_callback getDistance userCoordinates)
          \<lparr>nearestLocation = None, minDistance = Infinity\<rparr>
          (Object_entries warehouseCoordinates))"


section \<open>Data of the handlers\<close>

text \<open>
  The repository holds two handlers with the same decision logic:
  \<^verbatim>\<open>netlify/functions/checkPincode.js\<close> (axios, CORS headers; the constants below named as in
  the source) and a second file, \<open>part_000\<close> (node-fetch, no CORS headers; its
  constants carry the suffix \<open>part_000\<close>).
\<close>

datatype error = TypeError | Error string | Rejected

datatype json =
    JNull
  | JBool bool
  | JNumber real
  | JString string
  | JArray "json list"
  | JObject "(string \<times> json) list"

text \<open>ToBoolean on a JSON value, as \<^verbatim>\<open>||\<close> and \<^verbatim>\<open>!\<close> apply it.\<close>

fun truthy :: "json \<Rightarrow> bool" where
  "truthy JNull = False"
| "truthy (JBool b) = b"
| "truthy (JNumber x) = (x \<noteq> 0)"
| "truthy (JString s) = (s \<noteq> [])"
| "truthy (JArray xs) = True"
| "truthy (JObject kvs) = True"

text \<open>
  \<^verbatim>\<open>!x\<close> for a query parameter: a string, or \<open>undefined\<close> (\<open>None\<close>) when the
  parameter is missing.
\<close>

definition js_not :: "string option \<Rightarrow> bool" where
  "js_not x = (case x of None \<Rightarrow> True | Some s \<Rightarrow> s = [])"

text \<open>
  The event of an invocation. \<open>queryStringParameters\<close> is \<open>None\<close> when the
  property is \<open>null\<close> or \<open>undefined\<close>.
\<close>

record event =
  httpMethod :: string
  queryStringParameters :: "(string \<rightharpoonup> string) option"

text \<open>
  A response. \<open>headers = []\<close> stands for a response object without a \<open>headers\<close>
  property; \<open>JSON_stringify v\<close> is the text \<^verbatim>\<open>JSON.stringify\<close> makes of \<open>v\<close>.
\<close>

datatype body = Text string | JSON_stringify json

record response =
  statusCode :: nat
  headers :: "(string \<times> string) list"
  body :: body

text \<open>One place of the geocoding answer (Nominatim gives \<open>lat\<close> and \<open>lon\<close> as strings).\<close>

record place =
  lat :: string
  lon :: string

text \<open>
  The answer to the GraphQL query of the source, by the shape the query asks for:
  \<open>product.variants.edges[i].node.inventoryItem.inventoryLevels.edges[j].node\<close> with
  \<open>location.name\<close> and \<open>quantities[k].quantity\<close>.
\<close>

record levelNode =
  location_name :: string
  quantities :: "int list"

record variantNode =
  inventoryLevels_edges :: "levelNode list"

record product =
  variants_edges :: "variantNode list"

text \<open>
  The parsed body of the GraphQL response: \<open>data = None\<close> when the body has no
  \<open>data\<close> (or \<open>null\<close>), \<open>product = None\<close> when \<open>data.product\<close> is \<open>null\<close>.
\<close>

record graphql_data =
  product :: "product option"

record graphql_body =
  errors :: "json option"
  data :: "graphql_data option"

text \<open>
  What node-fetch resolves with: \<open>ok\<close> and the outcome of \<^verbatim>\<open>response.json()\<close>
  (\<open>Inl\<close> when it rejects, \<open>Inr None\<close> when the body parses to \<open>null\<close>).
\<close>

record 'a fetch_response =
  ok :: bool
  json :: "error + 'a"

datatype call = Get string | Post string string

text \<open>
  Everything the handlers take from outside the repository: the two HTTP clients (each
  call resolves, \<open>Inr\<close>, or rejects, \<open>Inl\<close>; axios resolves with
  \<open>response.data\<close>, which is \<open>None\<close> when falsy), geolib's \<^verbatim>\<open>getDistance\<close>, the
  built-in \<^verbatim>\<open>parseFloat\<close>, and the date five days after today as
  \<^verbatim>\<open>toLocaleDateString\<close> formats it. The payloads have the shape the services
  document (a list of places; the answer to the GraphQL query, with or without
  \<open>data\<close> and \<open>product\<close>); a payload of another shape is not modelled.
\<close>

record world =
  axios_get :: "string \<Rightarrow> error + place list"
  axios_post :: "string \<Rightarrow> string \<Rightarrow> error + graphql_body option"
  fetch_get :: "string \<Rightarrow> error + place list fetch_response"
  fetch_post :: "string \<Rightarrow> string \<Rightarrow> error + graphql_body option fetch_response"
  getDistance :: "coords \<Rightarrow> coords \<Rightarrow> number"
  parseFloat :: "string \<Rightarrow> number"
  estimatedDeliveryDate :: string

record inventoryLevel =
  locationName :: string
  quantity :: int

definition SHOPIFY_API_URL :: string where
  "SHOPIFY_API_URL = ''https://ruhe-solution.myshopify.com/admin/api/2023-01/graphql.json''"

definition warehouseCoordinates :: "(string \<times> coords) list" where
  "warehouseCoordinates =
     [(''382213'', \<lparr>latitude = Finite 23.0225, longitude = Finite 72.5714\<rparr>),
      (''110042'', \<lparr>latitude = Finite 28.7041, longitude = Finite 77.1025\<rparr>),
      (''562123'', \<lparr>latitude = Finite 12.9716, longitude = Finite 77.5946\<rparr>),
      (''131028'', \<lparr>latitude = Finite 28.9876, longitude = Finite 77.1136\<rparr>)]"

text \<open>
  \<^verbatim>\<open>warehouseLocationMap[name]\<close> is compared with a pincode by \<^verbatim>\<open>===\<close>: a name that
  is not a key gives \<open>undefined\<close> (or a property that every object inherits, which
  is not a string), and neither equals a pincode.
\<close>

definition warehouseLocationMap :: "string \<rightharpoonup> string" where
  "warehouseLocationMap =
     map_of
       [(''Ahmedabad Warehouse'', ''382213''),
        (''Delhi Warehouse'', ''110042''),
        (''Emiza Blr Warehouse'', ''562123''),
        (''Kundli Warehouse'', ''131028'')]"

section \<open>The handler of netlify/functions/checkPincode.js\<close>

text \<open>
  Every function that calls out returns its result together with the outbound calls it
  issued, in order.
\<close>

definition nominatim_url :: "string \<Rightarrow> string" where
  "nominatim_url pincode =
     ''https://nominatim.openstreetmap.org/search?postalcode='' @ pincode
       @ ''&country=India&format=json''"

text \<open>
  \<^verbatim>\<open>getCoordinatesFromPincode\<close>: the \<^verbatim>\<open>try\<close> block first, then the \<^verbatim>\<open>catch\<close>, which
  returns \<open>null\<close> here. (\<open>places\<close> is the \<open>data\<close> of the source, and
  \<open>the_product\<close> below its \<open>product\<close>: both names are fields of the GraphQL
  answer here.)
\<close>

definition getCoordinatesFromPincode_try :: "world \<Rightarrow> string \<Rightarrow> error + coords" where
  "getCoordinatesFromPincode_try w pincode =
     (case axios_get w (nominatim_url pincode) of
        Inl error \<Rightarrow> Inl error
      | Inr places \<Rightarrow>
          if 0 < length places
          then Inr \<lparr>latitude = parseFloat w (lat (places ! 0)),
                    longitude = parseFloat w (lon (places ! 0))\<rparr>
          else Inl (Error ''No coordinates found for the given pincode.''))"

definition getCoordinatesFromPincode :: "world \<Rightarrow> string \<Rightarrow> coords option \<times> call list" where
  "getCoordinatesFromPincode w pincode =
     ((case getCoordinatesFromPincode_try w pincode of
         Inl error \<Rightarrow> None
       | Inr userCoordinates \<Rightarrow> Some userCoordinates),
      [Get (nominatim_url pincode)])"

text \<open>
  \<^verbatim>\<open>product.variants.edges.flatMap(variant => ....edges.map(level => ...))\<close>, with
  \<^verbatim>\<open>level.node.quantities[0]?.quantity || 0\<close> for the quantity.
\<close>

definition inventoryLevels :: "product \<Rightarrow> inventoryLevel list" where
  "inventoryLevels the_product =
     concat
       (map
          (\<lambda>variant.
             map
               (\<lambda>level.
                  \<lparr>locationName = location_name level,
                   quantity =
                     (case quantities level of
                        [] \<Rightarrow> 0
                      | q # _ \<Rightarrow> if q \<noteq> 0 then q else 0)\<rparr>)
               (inventoryLevels_edges variant))
          (variants_edges the_product))"

definition availableInventory :: "inventoryLevel list \<Rightarrow> location \<Rightarrow> inventoryLevel option" where
  "availableInventory levels nearest =
     find
       (\<lambda>level. warehouseLocationMap (locationName level) = Some (location_pincode nearest) \<and>
                 0 < quantity level)
       levels"

definition fallbackInventory :: "inventoryLevel list \<Rightarrow> inventoryLevel option" where
  "fallbackInventory levels = find (\<lambda>level. 0 < quantity level) levels"

definition cors :: "(string \<times> string) list" where
  "cors = [(''Access-Control-Allow-Origin'', ''*'')]"

definition availableResponse :: "string \<Rightarrow> inventoryLevel \<Rightarrow> response" where
  "availableResponse estimatedDate level =
     \<lparr>statusCode = 200, headers = cors,
      body = JSON_stringify (JObject
        [(''message'', JString (''Estimate Delivery '' @ estimatedDate
            @ '',  <br> Dispatch from '' @ locationName level @ ''.''))])\<rparr>"

definition fallbackResponse :: "string \<Rightarrow> inventoryLevel \<Rightarrow> response" where
  "fallbackResponse estimatedDate level =
     \<lparr>statusCode = 200, headers = cors,
      body = JSON_stringify (JObject
        [(''message'', JString (''Estimate Delivery '' @ estimatedDate
            @ '', <br> Dispatch from '' @ locationName level @ ''.''))])\<rparr>"

definition outOfStockResponse :: response where
  "outOfStockResponse =
     \<lparr>statusCode = 200, headers = cors,
      body = JSON_stringify (JObject
        [(''error'', JString ''Product is out of stock at all locations.'')])\<rparr>"

definition errorResponse :: "nat \<Rightarrow> string \<Rightarrow> response" where
  "errorResponse code message =
     \<lparr>statusCode = code, headers = cors,
      body = JSON_stringify (JObject [(''error'', JString message)])\<rparr>"

text \<open>Lines 175 to 206: the nearest warehouse's stock, else any stock, else none.\<close>

definition selectInventory :: "string \<Rightarrow> inventoryLevel list \<Rightarrow> location \<Rightarrow> response" where
  "selectInventory estimatedDate levels nearest =
     (case availableInventory levels nearest of
        Some level \<Rightarrow> availableResponse estimatedDate level
      | None \<Rightarrow>
          (case fallbackInventory levels of
             Some level \<Rightarrow> fallbackResponse estimatedDate level
           | None \<Rightarrow> outOfStockResponse))"

text \<open>
  The \<^verbatim>\<open>try\<close> block of the handler, from the answer of the commerce query on;
  \<open>Inl\<close> is an exception thrown inside it.
\<close>

definition handler_product ::
  "world \<Rightarrow> coords \<Rightarrow> graphql_body option \<Rightarrow> error + response" where
  "handler_product w userCoordinates shopifyResponse_data =
     (case shopifyResponse_data of
        None \<Rightarrow> Inr (errorResponse 404 ''Product not found in Shopify'')
      | Some b \<Rightarrow>
          (case data b of
             None \<Rightarrow> Inl TypeError
           | Some d \<Rightarrow>
               (case product d of
                  None \<Rightarrow> Inr (errorResponse 404 ''Product not found in Shopify'')
                | Some the_product \<Rightarrow>
                    (case findNearestLocation (getDistance w) userCoordinates
                            warehouseCoordinates of
                       None \<Rightarrow>
                         Inr (errorResponse 404
                           ''No warehouse found near the provided pincode.'')
                     | Some nearest \<Rightarrow>
                         Inr (selectInventory (estimatedDeliveryDate w)
                                (inventoryLevels the_product) nearest)))))"

definition handler_try :: "world \<Rightarrow> string \<Rightarrow> string \<Rightarrow> (error + response) \<times> call list" where
  "handler_try w pincode productId =
     (case getCoordinatesFromPincode w pincode of
        (None, calls) \<Rightarrow>
          (Inr (errorResponse 404 ''Invalid pincode. No coordinates found.''), calls)
      | (Some userCoordinates, calls) \<Rightarrow>
          ((case axios_post w SHOPIFY_API_URL productId of
              Inl error \<Rightarrow> Inl error
            | Inr shopifyResponse_data \<Rightarrow>
                handler_product w userCoordinates shopifyResponse_data),
           calls @ [Post SHOPIFY_API_URL productId]))"

definition handler :: "world \<Rightarrow> event \<Rightarrow> (error + response) \<times> call list" where
  "handler w event =
     (if httpMethod event = ''OPTIONS''
      then (Inr \<lparr>statusCode = 204,
                 headers =
                   [(''Access-Control-Allow-Origin'', ''*''),
                    (''Access-Control-Allow-Methods'', ''GET, POST, OPTIONS''),
                    (''Access-Control-Allow-Headers'', ''Content-Type'')],
                 body = Text []\<rparr>, [])
      else
        let params = (case queryStringParameters event of None \<Rightarrow> Map.empty | Some q \<Rightarrow> q);
            pincode = params ''pincode'';
            productId = params ''productId''
        in if js_not pincode \<or> js_not productId
           then (Inr (errorResponse 400 ''Missing pincode or productId''), [])
           else
             (case handler_try w (the pincode) (the productId) of
                (Inl error, calls) \<Rightarrow> (Inr (errorResponse 500 ''Server error''), calls)
              | (Inr r, calls) \<Rightarrow> (Inr r, calls)))"

section \<open>The handler of the second file\<close>

text \<open>Here the \<^verbatim>\<open>catch\<close> of \<^verbatim>\<open>getCoordinatesFromPincode\<close> throws the error again.\<close>

definition getCoordinatesFromPincode_try_part_000 :: "world \<Rightarrow> string \<Rightarrow> error + coords" where
  "getCoordinatesFromPincode_try_part_000 w pincode =
     (case fetch_get w (nominatim_url pincode) of
        Inl error \<Rightarrow> Inl error
      | Inr response \<Rightarrow>
          (case json response of
             Inl error \<Rightarrow> Inl error
           | Inr places \<Rightarrow>
               if 0 < length places
               then Inr \<lparr>latitude = parseFloat w (lat (places ! 0)),
                         longitude = parseFloat w (lon (places ! 0))\<rparr>
               else Inl (Error ''No coordinates found for the given pincode.'')))"

definition getCoordinatesFromPincode_part_000 ::
  "world \<Rightarrow> string \<Rightarrow> (error + coords) \<times> call list" where
  "getCoordinatesFromPincode_part_000 w pincode =
     ((case getCoordinatesFromPincode_try_part_000 w pincode of
         Inl error \<Rightarrow> Inl error
       | Inr userCoordinates \<Rightarrow> Inr userCoordinates),
      [Get (nominatim_url pincode)])"

definition plainResponse :: "nat \<Rightarrow> json \<Rightarrow> response" where
  "plainResponse code v = \<lparr>statusCode = code, headers = [], body = JSON_stringify v\<rparr>"

definition availableResponse_part_000 :: "inventoryLevel \<Rightarrow> response" where
  "availableResponse_part_000 level =
     plainResponse 200 (JObject
       [(''warehouse'', JString (locationName level)),
        (''quantity'', JNumber (real_of_int (quantity level))),
        (''message'', JString (''Product is available at '' @ locationName level @ ''.''))])"

definition fallbackResponse_part_000 :: "inventoryLevel \<Rightarrow> response" where
  "fallbackResponse_part_000 level =
     plainResponse 200 (JObject
       [(''warehouse'', JString (locationName level)),
        (''quantity'', JNumber (real_of_int (quantity level))),
        (''message'', JString
           (''Product is not available near your pincode but is available at ''
              @ locationName level @ ''.''))])"

definition outOfStockResponse_part_000 :: response where
  "outOfStockResponse_part_000 =
     plainResponse 200 (JObject
       [(''error'', JString ''Product is out of stock at all locations.'')])"

text \<open>Lines 145 to 178 of the second file.\<close>

definition selectInventory_part_000 :: "inventoryLevel list \<Rightarrow> location \<Rightarrow> response" where
  "selectInventory_part_000 levels nearest =
     (case availableInventory levels nearest of
        Some level \<Rightarrow> availableResponse_part_000 level
      | None \<Rightarrow>
          (case fallbackInventory levels of
             Some level \<Rightarrow> fallbackResponse_part_000 level
           | None \<Rightarrow> outOfStockResponse_part_000))"

text \<open>
  The \<^verbatim>\<open>try\<close> block from the parsed answer of the commerce query on. \<open>None\<close> is
  a body that parses to \<open>null\<close>: reading \<open>result.errors\<close> or \<open>result.data\<close> throws.
\<close>

definition handler_product_part_000 ::
  "world \<Rightarrow> coords \<Rightarrow> bool \<Rightarrow> graphql_body option \<Rightarrow> error + response" where
  "handler_product_part_000 w userCoordinates response_ok result =
     (if \<not> response_ok
      then
        (case result of
           None \<Rightarrow> Inl TypeError
         | Some r \<Rightarrow>
             Inr (plainResponse 500 (JObject
               [(''error'',
                 (case errors r of
                    None \<Rightarrow> JString ''Error fetching product data''
                  | Some e \<Rightarrow>
                      if truthy e then e else JString ''Error fetching product data''))])))
      else
        (case result of
           None \<Rightarrow> Inl TypeError
         | Some r \<Rightarrow>
             (case data r of
                None \<Rightarrow> Inl TypeError
              | Some d \<Rightarrow>
                  (case product d of
                     None \<Rightarrow>
                       Inr (plainResponse 404 (JObject
                         [(''error'', JString ''Product not found'')]))
                   | Some the_product \<Rightarrow>
                       (case findNearestLocation (getDistance w) userCoordinates
                               warehouseCoordinates of
                          None \<Rightarrow>
                            Inr (plainResponse 404 (JObject
                              [(''error'', JString
                                  ''No warehouse found near the provided pincode.'')]))
                        | Some nearest \<Rightarrow>
                            Inr (selectInventory_part_000
                                   (inventoryLevels the_product) nearest))))))"

definition handler_try_part_000 ::
  "world \<Rightarrow> string \<Rightarrow> string \<Rightarrow> (error + response) \<times> call list" where
  "handler_try_part_000 w pincode productId =
     (case getCoordinatesFromPincode_part_000 w pincode of
        (Inl error, calls) \<Rightarrow> (Inl error, calls)
      | (Inr userCoordinates, calls) \<Rightarrow>
          ((case fetch_post w SHOPIFY_API_URL productId of
              Inl error \<Rightarrow> Inl error
            | Inr response \<Rightarrow>
                (case json response of
                   Inl error \<Rightarrow> Inl error
                 | Inr result \<Rightarrow>
                     handler_product_part_000 w userCoordinates (ok response) result)),
           calls @ [Post SHOPIFY_API_URL productId]))"

text \<open>
  The parameters are read from \<^verbatim>\<open>event.queryStringParameters\<close> before the
  \<^verbatim>\<open>try\<close>: when the property is \<open>null\<close> or \<open>undefined\<close> the destructuring
  throws a TypeError, and nothing catches it.
\<close>

definition handler_part_000 :: "world \<Rightarrow> event \<Rightarrow> (error + response) \<times> call list" where
  "handler_part_000 w event =
     (case queryStringParameters event of
        None \<Rightarrow> (Inl TypeError, [])
      | Some params \<Rightarrow>
          let pincode = params ''pincode'';
              productId = params ''productId''
          in if js_not pincode \<or> js_not productId
             then (Inr (plainResponse 400 (JObject
                     [(''error'', JString ''Missing pincode or productId'')])), [])
             else
               (case handler_try_part_000 w (the pincode) (the productId) of
                  (Inl error, calls) \<Rightarrow>
                    (Inr (plainResponse 500 (JObject
                       [(''error'', JString ''Server error'')])), calls)
                | (Inr r, calls) \<Rightarrow> (Inr r, calls)))"

section \<open>Sample inputs\<close>

text \<open>
  Concrete values to evaluate the definitions on. \<open>sample_distance\<close> stands in for
  geolib's \<^verbatim>\<open>getDistance\<close>: the sum of the two coordinate differences, and \<open>NaN\<close>
  as soon as a coordinate is not finite, as arithmetic on \<open>NaN\<close> gives.
\<close>

fun gap :: "number \<Rightarrow> number \<Rightarrow> number" where
  "gap (Finite x) (Finite y) = Finite \<bar>x - y\<bar>"
| "gap _ _ = NaN"

fun js_plus :: "number \<Rightarrow> number \<Rightarrow> number" where
  "js_plus (Finite x) (Finite y) = Finite (x + y)"
| "js_plus _ _ = NaN"

definition sample_distance :: "coords \<Rightarrow> coords \<Rightarrow> number" where
  "sample_distance a b =
     js_plus (gap (latitude a) (latitude b)) (gap (longitude a) (longitude b))"

definition sample_product :: product where
  "sample_product =
     \<lparr>variants_edges =
        [\<lparr>inventoryLevels_edges =
            [\<lparr>location_name = ''Ahmedabad Warehouse'', quantities = [4]\<rparr>,
             \<lparr>location_name = ''Delhi Warehouse'', quantities = []\<rparr>]\<rparr>,
         \<lparr>inventoryLevels_edges =
            [\<lparr>location_name = ''Kundli Warehouse'', quantities = [7]\<rparr>]\<rparr>]\<rparr>"

definition sample_world :: world where
  "sample_world =
     \<lparr>axios_get = (\<lambda>url. Inr [\<lparr>lat = ''28.6'', lon = ''77.2''\<rparr>]),
      axios_post = (\<lambda>url productId.
        Inr (Some \<lparr>errors = None, data = Some \<lparr>product = Some sample_product\<rparr>\<rparr>)),
      fetch_get = (\<lambda>url. Inr \<lparr>ok = True, json = Inr [\<lparr>lat = ''28.6'', lon = ''77.2''\<rparr>]\<rparr>),
      fetch_post = (\<lambda>url productId.
        Inr \<lparr>ok = True,
             json = Inr (Some \<lparr>errors = None, data = Some \<lparr>product = Some sample_product\<rparr>\<rparr>)\<rparr>),
      getDistance = sample_distance,
      parseFloat = (\<lambda>s. if s = ''28.6'' then Finite 28.6
                         else if s = ''77.2'' then Finite 77.2 else NaN),
      estimatedDeliveryDate = ''Saturday, Nov 7''\<rparr>"

text \<open>
  A registry with two entries at the same distance from \<open>(1, 1)\<close>; its keys are
  array indices, written in descending order.
\<close>

definition tie_registry :: "(string \<times> coords) list" where
  "tie_registry =
     [(''20'', \<lparr>latitude = Finite 2, longitude = Finite 2\<rparr>),
      (''10'', \<lparr>latitude = Finite 0, longitude = Finite 0\<rparr>)]"

text \<open>An inventory with stock at Ahmedabad and Kundli and none at Delhi, and two results
  of the scan.\<close>

definition sample_levels :: "inventoryLevel list" where
  "sample_levels =
     [\<lparr>locationName = ''Ahmedabad Warehouse'', quantity = 4\<rparr>,
      \<lparr>locationName = ''Delhi Warehouse'', quantity = 0\<rparr>,
      \<lparr>locationName = ''Kundli Warehouse'', quantity = 7\<rparr>]"

definition ahmedabad :: location where
  "ahmedabad =
     \<lparr>location_pincode = ''382213'',
      location_coords = \<lparr>latitude = Finite 23.0225, longitude = Finite 72.5714\<rparr>\<rparr>"

definition delhi :: location where
  "delhi =
     \<lparr>location_pincode = ''110042'',
      location_coords = \<lparr>latitude = Finite 28.7041, longitude = Finite 77.1025\<rparr>\<rparr>"

text \<open>
  A world whose geocoding answer has no usable \<open>lat\<close> and \<open>lon\<close>:
  \<^verbatim>\<open>parseFloat\<close> gives \<open>NaN\<close> for both.
\<close>

definition unparsed_world :: world where
  "unparsed_world = sample_world\<lparr>axios_get := (\<lambda>url. Inr [\<lparr>lat = [], lon = []\<rparr>])\<rparr>"

section \<open>Numbers and the scan\<close>

lemma js_lt_not_NaN: "js_lt a b \<Longrightarrow> a \<noteq> NaN \<and> b \<noteq> NaN"
  by (cases a; cases b) simp_all

lemma js_lt_irrefl: "\<not> js_lt a a"
  by (cases a) simp_all

lemma js_lt_linear: "a \<noteq> NaN \<Longrightarrow> b \<noteq> NaN \<Longrightarrow> js_lt a b \<or> a = b \<or> js_lt b a"
  by (cases a; cases b) auto

lemma js_lt_trans: "js_lt a b \<Longrightarrow> js_lt b c \<Longrightarrow> js_lt a c"
  by (cases a; cases b; cases c) simp_all

lemma minDistance_callback:
  "minDistance (forEach_callback gd u s e) =
     (if js_lt (gd u (snd e)) (minDistance s) then gd u (snd e) else minDistance s)"
  by (simp add: forEach_callback_def Let_def)

lemma nearestLocation_callback:
  "nearestLocation (forEach_callback gd u s e) =
     (if js_lt (gd u (snd e)) (minDistance s)
      then Some \<lparr>location_pincode = fst e, location_coords = snd e\<rparr>
      else nearestLocation s)"
  by (simp add: forEach_callback_def Let_def)

lemma callback_unchanged:
  "\<not> js_lt (gd u (snd e)) (minDistance s) \<Longrightarrow> forEach_callback gd u s e = s"
  by (simp add: forEach_callback_def Let_def)

lemma callback_taken:
  "js_lt (gd u (snd e)) (minDistance s) \<Longrightarrow>
   forEach_callback gd u s e =
     \<lparr>nearestLocation = Some \<lparr>location_pincode = fst e, location_coords = snd e\<rparr>,
      minDistance = gd u (snd e)\<rparr>"
  by (simp add: forEach_callback_def Let_def)

text \<open>Entries that are not nearer than the minimum so far leave the two variables alone.\<close>

lemma scan_unchanged:
  "\<forall>e\<in>set es. \<not> js_lt (gd u (snd e)) (minDistance s) \<Longrightarrow>
   foldl (forEach_callback gd u) s es = s"
  by (induction es arbitrary: s) (simp_all add: callback_unchanged)

text \<open>The minimum never grows.\<close>

lemma scan_decreases:
  "minDistance (foldl (forEach_callback gd u) s es) = minDistance s \<or>
   js_lt (minDistance (foldl (forEach_callback gd u) s es)) (minDistance s)"
proof (induction es arbitrary: s)
  case Nil
  show ?case by simp
next
  case (Cons e es)
  let ?s1 = "forEach_callback gd u s e"
  let ?fin = "foldl (forEach_callback gd u) ?s1 es"
  have step: "minDistance ?s1 = minDistance s \<or> js_lt (minDistance ?s1) (minDistance s)"
    by (simp add: minDistance_callback)
  have rest: "minDistance ?fin = minDistance ?s1 \<or> js_lt (minDistance ?fin) (minDistance ?s1)"
    by (rule Cons)
  from rest step have "minDistance ?fin = minDistance s \<or> js_lt (minDistance ?fin) (minDistance s)"
    using js_lt_trans [of "minDistance ?fin" "minDistance ?s1" "minDistance s"] by auto
  then show ?case by simp
qed

text \<open>No entry that was scanned is nearer than the final minimum.\<close>

lemma scan_lower:
  "e \<in> set es \<Longrightarrow> \<not> js_lt (gd u (snd e)) (minDistance (foldl (forEach_callback gd u) s es))"
proof (induction es arbitrary: s)
  case Nil
  then show ?case by simp
next
  case (Cons x xs)
  let ?s1 = "forEach_callback gd u s x"
  let ?fin = "foldl (forEach_callback gd u) ?s1 xs"
  show ?case
  proof (cases "e = x")
    case True
    have here: "\<not> js_lt (gd u (snd x)) (minDistance ?s1)"
      by (simp add: minDistance_callback js_lt_irrefl)
    have "minDistance ?fin = minDistance ?s1 \<or> js_lt (minDistance ?fin) (minDistance ?s1)"
      by (rule scan_decreases)
    with here have "\<not> js_lt (gd u (snd x)) (minDistance ?fin)"
      using js_lt_trans [of "gd u (snd x)" "minDistance ?fin" "minDistance ?s1"] by auto
    with True show ?thesis by simp
  next
    case False
    with Cons.prems have "e \<in> set xs" by simp
    then have "\<not> js_lt (gd u (snd e)) (minDistance ?fin)" by (rule Cons.IH)
    then show ?thesis by simp
  qed
qed

text \<open>
  Either no entry was taken, or the result is an entry of the list, the minimum is its
  distance, and that distance is below the minimum the scan started with.
\<close>

lemma scan_result:
  "foldl (forEach_callback gd u) s es = s \<or>
   (\<exists>e\<in>set es.
      nearestLocation (foldl (forEach_callback gd u) s es)
        = Some \<lparr>location_pincode = fst e, location_coords = snd e\<rparr> \<and>
      minDistance (foldl (forEach_callback gd u) s es) = gd u (snd e) \<and>
      js_lt (gd u (snd e)) (minDistance s))"
proof (induction es arbitrary: s)
  case Nil
  show ?case by simp
next
  case (Cons x xs)
  let ?s1 = "forEach_callback gd u s x"
  let ?fin = "foldl (forEach_callback gd u) ?s1 xs"
  show ?case
  proof (cases "js_lt (gd u (snd x)) (minDistance s)")
    case False
    then have "?s1 = s" by (rule callback_unchanged)
    with Cons.IH [of s] show ?thesis by auto
  next
    case True
    then have m1: "minDistance ?s1 = gd u (snd x)"
      and n1: "nearestLocation ?s1 = Some \<lparr>location_pincode = fst x, location_coords = snd x\<rparr>"
      by (simp_all add: minDistance_callback nearestLocation_callback)
    from Cons.IH [of ?s1] show ?thesis
    proof
      assume "?fin = ?s1"
      with m1 n1 True show ?thesis by auto
    next
      assume "\<exists>e\<in>set xs.
        nearestLocation ?fin = Some \<lparr>location_pincode = fst e, location_coords = snd e\<rparr> \<and>
        minDistance ?fin = gd u (snd e) \<and> js_lt (gd u (snd e)) (minDistance ?s1)"
      then obtain e where e: "e \<in> set xs"
        "nearestLocation ?fin = Some \<lparr>location_pincode = fst e, location_coords = snd e\<rparr>"
        "minDistance ?fin = gd u (snd e)" "js_lt (gd u (snd e)) (minDistance ?s1)"
        by blast
      from e(4) m1 True have "js_lt (gd u (snd e)) (minDistance s)"
        using js_lt_trans [of "gd u (snd e)" "gd u (snd x)" "minDistance s"] by simp
      with e show ?thesis by auto
    qed
  qed
qed

text \<open>
  While every entry is farther than \<open>m\<close> (or has no distance), the minimum stays
  above \<open>m\<close>.
\<close>

lemma scan_above:
  "js_lt m (minDistance s) \<Longrightarrow>
   \<forall>e\<in>set es. \<not> js_lt (gd u (snd e)) m \<and> gd u (snd e) \<noteq> m \<Longrightarrow>
   js_lt m (minDistance (foldl (forEach_callback gd u) s es))"
proof (induction es arbitrary: s)
  case Nil
  then show ?case by simp
next
  case (Cons x xs)
  let ?s1 = "forEach_callback gd u s x"
  have "js_lt m (minDistance ?s1)"
  proof (cases "js_lt (gd u (snd x)) (minDistance s)")
    case False
    with Cons.prems(1) show ?thesis by (simp add: minDistance_callback)
  next
    case True
    then have "gd u (snd x) \<noteq> NaN" using js_lt_not_NaN by blast
    moreover from Cons.prems(1) have "m \<noteq> NaN" using js_lt_not_NaN by blast
    moreover from Cons.prems(2) have "\<not> js_lt (gd u (snd x)) m" "gd u (snd x) \<noteq> m" by simp_all
    ultimately have "js_lt m (gd u (snd x))"
      using js_lt_linear [of m "gd u (snd x)"] by auto
    with True show ?thesis by (simp add: minDistance_callback)
  qed
  moreover from Cons.prems(2)
  have "\<forall>e\<in>set xs. \<not> js_lt (gd u (snd e)) m \<and> gd u (snd e) \<noteq> m" by simp
  ultimately have "js_lt m (minDistance (foldl (forEach_callback gd u) ?s1 xs))"
    by (rule Cons.IH)
  then show ?case by simp
qed

lemma set_Object_entries: "set (Object_entries obj) = set obj"
  by (auto simp: Object_entries_def)

lemma length_Object_entries: "length (Object_entries obj) = length obj"
  by (simp add: Object_entries_def sum_length_filter_compl)

text \<open>
  The registry of both handlers is scanned in ascending order of its keys, not in the
  order it is written.
\<close>

lemma Object_entries_warehouseCoordinates:
  "Object_entries warehouseCoordinates =
     [(''110042'', \<lparr>latitude = Finite 28.7041, longitude = Finite 77.1025\<rparr>),
      (''131028'', \<lparr>latitude = Finite 28.9876, longitude = Finite 77.1136\<rparr>),
      (''382213'', \<lparr>latitude = Finite 23.0225, longitude = Finite 72.5714\<rparr>),
      (''562123'', \<lparr>latitude = Finite 12.9716, longitude = Finite 77.5946\<rparr>)]"
  by (simp add: Object_entries_def warehouseCoordinates_def arrayIndex_def digit_def
      decimal_def)

lemma Object_entries_tie_registry:
  "Object_entries tie_registry =
     [(''10'', \<lparr>latitude = Finite 0, longitude = Finite 0\<rparr>),
      (''20'', \<lparr>latitude = Finite 2, longitude = Finite 2\<rparr>)]"
  by (simp add: Object_entries_def tie_registry_def arrayIndex_def digit_def decimal_def)

text \<open>
  What the scan returns: \<open>null\<close> when no entry has a distance below
  \<open>Infinity\<close>, and otherwise an entry with such a distance that no entry is nearer
  than.
\<close>

lemma findNearestLocation_cases:
  "findNearestLocation gd u registry = None \<and>
     (\<forall>e\<in>set registry. \<not> js_lt (gd u (snd e)) Infinity) \<or>
   (\<exists>e\<in>set registry.
      findNearestLocation gd u registry
        = Some \<lparr>location_pincode = fst e, location_coords = snd e\<rparr> \<and>
      js_lt (gd u (snd e)) Infinity \<and>
      (\<forall>e'\<in>set registry. \<not> js_lt (gd u (snd e')) (gd u (snd e))))"
proof -
  let ?es = "Object_entries registry"
  let ?s0 = "\<lparr>nearestLocation = None, minDistance = Infinity\<rparr>"
  let ?fin = "foldl (forEach_callback gd u) ?s0 ?es"
  have lower: "\<not> js_lt (gd u (snd e')) (minDistance ?fin)" if "e' \<in> set registry" for e'
    using that scan_lower [of e' ?es gd u ?s0] by (simp add: set_Object_entries)
  from scan_result [of gd u ?s0 ?es] show ?thesis
  proof
    assume same: "?fin = ?s0"
    then have "findNearestLocation gd u registry = None"
      by (simp add: findNearestLocation_def)
    moreover have "\<forall>e\<in>set registry. \<not> js_lt (gd u (snd e)) Infinity"
      using lower same by simp
    ultimately show ?thesis by blast
  next
    assume "\<exists>e\<in>set ?es.
      nearestLocation ?fin = Some \<lparr>location_pincode = fst e, location_coords = snd e\<rparr> \<and>
      minDistance ?fin = gd u (snd e) \<and> js_lt (gd u (snd e)) (minDistance ?s0)"
    then obtain e where e: "e \<in> set ?es"
      "nearestLocation ?fin = Some \<lparr>location_pincode = fst e, location_coords = snd e\<rparr>"
      "minDistance ?fin = gd u (snd e)" "js_lt (gd u (snd e)) (minDistance ?s0)"
      by blast
    from e(1) have mem: "e \<in> set registry" by (simp add: set_Object_entries)
    from e(4) have below: "js_lt (gd u (snd e)) Infinity" by simp
    have least: "\<forall>e'\<in>set registry. \<not> js_lt (gd u (snd e')) (gd u (snd e))"
      using lower e(3) by simp
    from e(2) have "findNearestLocation gd u registry
        = Some \<lparr>location_pincode = fst e, location_coords = snd e\<rparr>"
      by (simp add: findNearestLocation_def)
    with mem below least show ?thesis by blast
  qed
qed

section \<open>The nearest warehouse\<close>

text \<open>
  C1. For every registry and all user coordinates for which \<^verbatim>\<open>getDistance\<close> gives a
  number below \<open>Infinity\<close> for at least one entry, \<open>findNearestLocation\<close> returns
  an entry of the registry whose distance is such a number; no entry of the registry is
  nearer, and its distance is less than or equal to the distance of every entry whose
  distance is a number.
\<close>

theorem findNearestLocation_minimal:
  assumes "\<exists>e\<in>set registry. js_lt (gd u (snd e)) Infinity"
  shows "\<exists>e\<in>set registry.
           findNearestLocation gd u registry
             = Some \<lparr>location_pincode = fst e, location_coords = snd e\<rparr> \<and>
           js_lt (gd u (snd e)) Infinity \<and>
           (\<forall>e'\<in>set registry. \<not> js_lt (gd u (snd e')) (gd u (snd e))) \<and>
           (\<forall>e'\<in>set registry. gd u (snd e') \<noteq> NaN \<longrightarrow> js_le (gd u (snd e)) (gd u (snd e')))"
proof -
  from findNearestLocation_cases [where gd = gd and u = u and registry = registry] assms
  obtain e where e: "e \<in> set registry"
    "findNearestLocation gd u registry
       = Some \<lparr>location_pincode = fst e, location_coords = snd e\<rparr>"
    "js_lt (gd u (snd e)) Infinity"
    "\<forall>e'\<in>set registry. \<not> js_lt (gd u (snd e')) (gd u (snd e))"
    by blast
  from e(3) have num: "gd u (snd e) \<noteq> NaN" using js_lt_not_NaN by blast
  have "js_le (gd u (snd e)) (gd u (snd e'))"
    if "e' \<in> set registry" "gd u (snd e') \<noteq> NaN" for e'
    using e(4) that num js_lt_linear [of "gd u (snd e)" "gd u (snd e')"]
    by (auto simp: js_le_def)
  with e show ?thesis by blast
qed

theorem findNearestLocation_minimal_witness:
  "(\<exists>e\<in>set warehouseCoordinates.
      js_lt (sample_distance \<lparr>latitude = Finite 28.6, longitude = Finite 77.2\<rparr> (snd e)) Infinity) \<and>
   (\<exists>e\<in>set warehouseCoordinates.
      findNearestLocation sample_distance \<lparr>latitude = Finite 28.6, longitude = Finite 77.2\<rparr>
          warehouseCoordinates
        = Some \<lparr>location_pincode = fst e, location_coords = snd e\<rparr> \<and>
      js_lt (sample_distance \<lparr>latitude = Finite 28.6, longitude = Finite 77.2\<rparr> (snd e)) Infinity \<and>
      (\<forall>e'\<in>set warehouseCoordinates.
         \<not> js_lt (sample_distance \<lparr>latitude = Finite 28.6, longitude = Finite 77.2\<rparr> (snd e'))
              (sample_distance \<lparr>latitude = Finite 28.6, longitude = Finite 77.2\<rparr> (snd e))) \<and>
      (\<forall>e'\<in>set warehouseCoordinates.
         sample_distance \<lparr>latitude = Finite 28.6, longitude = Finite 77.2\<rparr> (snd e') \<noteq> NaN \<longrightarrow>
         js_le (sample_distance \<lparr>latitude = Finite 28.6, longitude = Finite 77.2\<rparr> (snd e))
               (sample_distance \<lparr>latitude = Finite 28.6, longitude = Finite 77.2\<rparr> (snd e'))))"
proof -
  have h: "\<exists>e\<in>set warehouseCoordinates.
      js_lt (sample_distance \<lparr>latitude = Finite 28.6, longitude = Finite 77.2\<rparr> (snd e)) Infinity"
    by (simp add: warehouseCoordinates_def sample_distance_def)
  show ?thesis
    using h findNearestLocation_minimal
      [where gd = sample_distance and registry = warehouseCoordinates
         and u = "\<lparr>latitude = Finite 28.6, longitude = Finite 77.2\<rparr>", OF h]
    by (rule conjI)
qed

text \<open>
  The condition on the distances is needed. The coordinates of the user are the results
  of \<^verbatim>\<open>parseFloat\<close>, which is \<open>NaN\<close> on a text that does not start with a number; a
  distance computed from a \<open>NaN\<close> coordinate is \<open>NaN\<close>, and
  \<^verbatim>\<open>NaN < Infinity\<close> is false: the scan then returns \<open>null\<close> for the registry of
  the handlers, which is not empty.
\<close>

theorem findNearestLocation_minimal_counterexample:
  "warehouseCoordinates \<noteq> [] \<and>
   findNearestLocation sample_distance \<lparr>latitude = NaN, longitude = NaN\<rparr> warehouseCoordinates
     = None"
proof
  show "warehouseCoordinates \<noteq> []"
    by (simp add: warehouseCoordinates_def)
  show "findNearestLocation sample_distance \<lparr>latitude = NaN, longitude = NaN\<rparr>
      warehouseCoordinates = None"
    by (simp add: Object_entries_warehouseCoordinates findNearestLocation_def
        forEach_callback_def sample_distance_def)
qed

text \<open>
  C2. When the entry at position \<open>i\<close> of the iteration order of the registry
  (\<^verbatim>\<open>Object.entries\<close>) has the minimum distance (a number below \<open>Infinity\<close> that
  no entry's distance is less than) and no entry before it has the same distance,
  \<open>findNearestLocation\<close> returns that entry, however many later entries are at the
  same distance. The result is a function of the registry and the coordinates.
\<close>

theorem findNearestLocation_first_minimum:
  assumes i: "i < length (Object_entries registry)"
    and below: "js_lt (gd u (snd (Object_entries registry ! i))) Infinity"
    and least: "\<forall>k<length (Object_entries registry).
        \<not> js_lt (gd u (snd (Object_entries registry ! k))) (gd u (snd (Object_entries registry ! i)))"
    and first: "\<forall>k<i. gd u (snd (Object_entries registry ! k)) \<noteq> gd u (snd (Object_entries registry ! i))"
  shows "findNearestLocation gd u registry =
           Some \<lparr>location_pincode = fst (Object_entries registry ! i),
                 location_coords = snd (Object_entries registry ! i)\<rparr>"
proof -
  let ?es = "Object_entries registry"
  let ?x = "?es ! i"
  let ?m = "gd u (snd ?x)"
  let ?s0 = "\<lparr>nearestLocation = None, minDistance = Infinity\<rparr>"
  let ?s1 = "foldl (forEach_callback gd u) ?s0 (take i ?es)"
  let ?s2 = "forEach_callback gd u ?s1 ?x"
  have split: "?es = take i ?es @ ?x # drop (Suc i) ?es"
    using i by (rule id_take_nth_drop)
  have all: "\<not> js_lt (gd u (snd e)) ?m" if "e \<in> set ?es" for e
    using that least by (auto simp: in_set_conv_nth)
  have pre: "\<forall>e\<in>set (take i ?es). \<not> js_lt (gd u (snd e)) ?m \<and> gd u (snd e) \<noteq> ?m"
  proof
    fix e assume "e \<in> set (take i ?es)"
    then obtain k where k: "k < i" "k < length ?es" "e = ?es ! k"
      using i by (auto simp: in_set_conv_nth)
    with least first show "\<not> js_lt (gd u (snd e)) ?m \<and> gd u (snd e) \<noteq> ?m" by simp
  qed
  from below have "js_lt ?m (minDistance ?s0)" by simp
  then have above: "js_lt ?m (minDistance ?s1)" using pre by (rule scan_above)
  then have s2: "?s2 = \<lparr>nearestLocation = Some \<lparr>location_pincode = fst ?x, location_coords = snd ?x\<rparr>,
      minDistance = ?m\<rparr>"
    by (rule callback_taken)
  have "\<forall>e\<in>set (drop (Suc i) ?es). \<not> js_lt (gd u (snd e)) (minDistance ?s2)"
    using all s2 by (auto dest: in_set_dropD)
  then have post: "foldl (forEach_callback gd u) ?s2 (drop (Suc i) ?es) = ?s2"
    by (rule scan_unchanged)
  have "foldl (forEach_callback gd u) ?s0 ?es
      = foldl (forEach_callback gd u) ?s2 (drop (Suc i) ?es)"
    by (subst split) simp
  with post s2 show ?thesis by (simp add: findNearestLocation_def)
qed

text \<open>
  Two entries at the same distance: the one that comes first in the iteration order is
  returned, which is the one with the smaller key and not the one written first.
\<close>

theorem findNearestLocation_first_minimum_witness:
  "sample_distance \<lparr>latitude = Finite 1, longitude = Finite 1\<rparr> (snd (Object_entries tie_registry ! 0))
     = sample_distance \<lparr>latitude = Finite 1, longitude = Finite 1\<rparr> (snd (Object_entries tie_registry ! 1)) \<and>
   findNearestLocation sample_distance \<lparr>latitude = Finite 1, longitude = Finite 1\<rparr> tie_registry
     = Some \<lparr>location_pincode = ''10'',
             location_coords = \<lparr>latitude = Finite 0, longitude = Finite 0\<rparr>\<rparr>"
  using findNearestLocation_first_minimum
    [where gd = sample_distance and registry = tie_registry and i = 0
       and u = "\<lparr>latitude = Finite 1, longitude = Finite 1\<rparr>"]
  by (simp add: Object_entries_tie_registry sample_distance_def All_less_Suc)

text \<open>
  C9. \<open>findNearestLocation\<close> returns \<open>null\<close> exactly when no entry of the registry
  has a distance that is a number below \<open>Infinity\<close>: for the empty registry, and for
  a registry with entries only when every distance is \<open>NaN\<close> (or \<open>Infinity\<close>). In
  every other case it returns a warehouse. It is a total function: it does not throw.
\<close>

theorem findNearestLocation_None_iff:
  "findNearestLocation gd u registry = None \<longleftrightarrow>
     (\<forall>e\<in>set registry. \<not> js_lt (gd u (snd e)) Infinity)"
  using findNearestLocation_cases [where gd = gd and u = u and registry = registry]
  by auto

theorem findNearestLocation_None_iff_witness:
  "findNearestLocation sample_distance \<lparr>latitude = Finite 28.6, longitude = Finite 77.2\<rparr>
     warehouseCoordinates \<noteq> None \<and>
   findNearestLocation sample_distance \<lparr>latitude = Finite 28.6, longitude = Finite 77.2\<rparr> []
     = None"
proof -
  let ?u = "\<lparr>latitude = Finite 28.6, longitude = Finite 77.2\<rparr>"
  have near: "\<not> (\<forall>e\<in>set warehouseCoordinates. \<not> js_lt (sample_distance ?u (snd e)) Infinity)"
    by (simp add: warehouseCoordinates_def sample_distance_def)
  have a: "findNearestLocation sample_distance ?u warehouseCoordinates \<noteq> None"
    using near
      findNearestLocation_None_iff
        [where gd = sample_distance and registry = warehouseCoordinates and u = ?u]
    by blast
  have b: "findNearestLocation sample_distance ?u [] = None"
    by (rule iffD2 [OF findNearestLocation_None_iff]) simp
  show ?thesis by (rule conjI [OF a b])
qed

text \<open>
  A registry with one entry and a user latitude that is \<open>NaN\<close>: the result is
  \<open>null\<close> although the registry is not empty.
\<close>

theorem findNearestLocation_None_iff_counterexample:
  "[(''110042'', \<lparr>latitude = Finite 28.7041, longitude = Finite 77.1025\<rparr>)] \<noteq> [] \<and>
   findNearestLocation sample_distance \<lparr>latitude = NaN, longitude = Finite 77.2\<rparr>
     [(''110042'', \<lparr>latitude = Finite 28.7041, longitude = Finite 77.1025\<rparr>)] = None"
  by (simp add: Object_entries_def arrayIndex_def digit_def decimal_def findNearestLocation_def
      forEach_callback_def sample_distance_def)

section \<open>Extraction of the inventory records\<close>

lemma inventoryLevels_map:
  "inventoryLevels p =
     map (\<lambda>level.
            \<lparr>locationName = location_name level,
             quantity = (case quantities level of [] \<Rightarrow> 0 | q # _ \<Rightarrow> if q \<noteq> 0 then q else 0)\<rparr>)
       (concat (map inventoryLevels_edges (variants_edges p)))"
  by (simp add: inventoryLevels_def map_concat o_def)

text \<open>
  C6. For every product of the commerce answer, \<open>inventoryLevels\<close> has as many
  records as the variants have inventory-level entries in total, in the order of the
  answer and with the names of the locations; the quantity of a record is 0 when the
  entry has no quantity (\<open>quantities\<close> is empty), and the first quantity of the
  entry otherwise.
\<close>

theorem inventoryLevels_count:
  "length (inventoryLevels p)
     = sum_list (map (\<lambda>variant. length (inventoryLevels_edges variant)) (variants_edges p)) \<and>
   map locationName (inventoryLevels p)
     = map location_name (concat (map inventoryLevels_edges (variants_edges p))) \<and>
   (\<forall>i<length (inventoryLevels p).
      quantities (concat (map inventoryLevels_edges (variants_edges p)) ! i) = [] \<longrightarrow>
      quantity (inventoryLevels p ! i) = 0) \<and>
   (\<forall>i<length (inventoryLevels p).
      quantity (inventoryLevels p ! i)
        = (case quantities (concat (map inventoryLevels_edges (variants_edges p)) ! i) of
             [] \<Rightarrow> 0
           | q # _ \<Rightarrow> q))"
  by (simp add: inventoryLevels_map length_concat o_def split: list.split)

theorem inventoryLevels_count_witness:
  "length (inventoryLevels sample_product) = 3 \<and>
   quantities (concat (map inventoryLevels_edges (variants_edges sample_product)) ! 1) = [] \<and>
   quantity (inventoryLevels sample_product ! 1) = 0"
proof -
  note t = inventoryLevels_count [where p = sample_product]
  from t have "length (inventoryLevels sample_product)
      = sum_list (map (\<lambda>variant. length (inventoryLevels_edges variant))
          (variants_edges sample_product))"
    by (rule conjunct1)
  then have a: "length (inventoryLevels sample_product) = 3"
    by (simp add: sample_product_def)
  have b: "quantities (concat (map inventoryLevels_edges (variants_edges sample_product)) ! 1)
      = []"
    by (simp add: sample_product_def)
  from t have "\<forall>i<length (inventoryLevels sample_product).
      quantities (concat (map inventoryLevels_edges (variants_edges sample_product)) ! i) = [] \<longrightarrow>
      quantity (inventoryLevels sample_product ! i) = 0"
    by (rule conjunct1 [OF conjunct2 [OF conjunct2]])
  with a b have c: "quantity (inventoryLevels sample_product ! 1) = 0"
    by simp
  show ?thesis by (rule conjI [OF a conjI [OF b c]])
qed

section \<open>The selection policy\<close>

lemma availableInventory_Some:
  "availableInventory levels nearest = Some level \<Longrightarrow>
   level \<in> set levels \<and>
   warehouseLocationMap (locationName level) = Some (location_pincode nearest) \<and>
   0 < quantity level"
  by (auto simp: availableInventory_def find_Some_iff)

lemma fallbackInventory_Some:
  "fallbackInventory levels = Some level \<Longrightarrow> level \<in> set levels \<and> 0 < quantity level"
  by (auto simp: fallbackInventory_def find_Some_iff)

lemma availableResponse_neq_fallbackResponse:
  "availableResponse estimatedDate level \<noteq> fallbackResponse estimatedDate level'"
  by (simp add: availableResponse_def fallbackResponse_def)

lemma availableResponse_neq_fallbackResponse_part_000:
  "availableResponse_part_000 level \<noteq> fallbackResponse_part_000 level'"
  by (simp add: availableResponse_part_000_def fallbackResponse_part_000_def plainResponse_def)

lemma selectInventory_cases:
  "selectInventory estimatedDate levels nearest = outOfStockResponse \<or>
   (\<exists>chosen\<in>set levels. 0 < quantity chosen \<and>
      (selectInventory estimatedDate levels nearest = availableResponse estimatedDate chosen \<or>
       selectInventory estimatedDate levels nearest = fallbackResponse estimatedDate chosen))"
proof (cases "availableInventory levels nearest")
  case (Some chosen)
  with availableInventory_Some [OF Some] show ?thesis
    by (auto simp: selectInventory_def)
next
  case None
  show ?thesis
  proof (cases "fallbackInventory levels")
    case (Some chosen)
    with None fallbackInventory_Some [OF Some] show ?thesis
      by (auto simp: selectInventory_def)
  next
    case none: None
    with None show ?thesis by (simp add: selectInventory_def)
  qed
qed

lemma selectInventory_part_000_cases:
  "selectInventory_part_000 levels nearest = outOfStockResponse_part_000 \<or>
   (\<exists>chosen\<in>set levels. 0 < quantity chosen \<and>
      (selectInventory_part_000 levels nearest = availableResponse_part_000 chosen \<or>
       selectInventory_part_000 levels nearest = fallbackResponse_part_000 chosen))"
proof (cases "availableInventory levels nearest")
  case (Some chosen)
  with availableInventory_Some [OF Some] show ?thesis
    by (auto simp: selectInventory_part_000_def)
next
  case None
  show ?thesis
  proof (cases "fallbackInventory levels")
    case (Some chosen)
    with None fallbackInventory_Some [OF Some] show ?thesis
      by (auto simp: selectInventory_part_000_def)
  next
    case none: None
    with None show ?thesis by (simp add: selectInventory_part_000_def)
  qed
qed

text \<open>
  C3. When the inventory has a record with a quantity above 0 whose location name maps,
  by \<open>warehouseLocationMap\<close>, to the pincode of the nearest warehouse, both handlers
  answer with the response of the first branch, for the first such record: status code
  200 and a body with the message that names the location of that record (in the second
  file also its name and its quantity), which is neither the out-of-stock response nor a
  fallback response. What the other warehouses have in stock plays no part.
\<close>

theorem nearest_stock_is_dispatched:
  assumes "level \<in> set levels"
    and "warehouseLocationMap (locationName level) = Some (location_pincode nearest)"
    and "0 < quantity level"
  shows "\<exists>i<length levels.
           warehouseLocationMap (locationName (levels ! i)) = Some (location_pincode nearest) \<and>
           0 < quantity (levels ! i) \<and>
           (\<forall>j<i. \<not> (warehouseLocationMap (locationName (levels ! j))
                          = Some (location_pincode nearest) \<and>
                        0 < quantity (levels ! j))) \<and>
           availableInventory levels nearest = Some (levels ! i) \<and>
           selectInventory estimatedDate levels nearest
             = availableResponse estimatedDate (levels ! i) \<and>
           selectInventory estimatedDate levels nearest
             = \<lparr>statusCode = 200,
                headers = [(''Access-Control-Allow-Origin'', ''*'')],
                body = JSON_stringify (JObject
                  [(''message'', JString (''Estimate Delivery '' @ estimatedDate
                      @ '',  <br> Dispatch from '' @ locationName (levels ! i) @ ''.''))])\<rparr> \<and>
           selectInventory estimatedDate levels nearest \<noteq> outOfStockResponse \<and>
           (\<forall>other. selectInventory estimatedDate levels nearest
              \<noteq> fallbackResponse estimatedDate other) \<and>
           selectInventory_part_000 levels nearest = availableResponse_part_000 (levels ! i) \<and>
           selectInventory_part_000 levels nearest
             = \<lparr>statusCode = 200,
                headers = [],
                body = JSON_stringify (JObject
                  [(''warehouse'', JString (locationName (levels ! i))),
                   (''quantity'', JNumber (real_of_int (quantity (levels ! i)))),
                   (''message'', JString (''Product is available at ''
                      @ locationName (levels ! i) @ ''.''))])\<rparr> \<and>
           selectInventory_part_000 levels nearest \<noteq> outOfStockResponse_part_000 \<and>
           (\<forall>other. selectInventory_part_000 levels nearest
              \<noteq> fallbackResponse_part_000 other)"
proof -
  from assms have "availableInventory levels nearest \<noteq> None"
    by (auto simp: availableInventory_def find_None_iff)
  then obtain chosen where chosen: "availableInventory levels nearest = Some chosen"
    by blast
  then obtain i where i: "i < length levels" "chosen = levels ! i"
    "warehouseLocationMap (locationName (levels ! i)) = Some (location_pincode nearest)"
    "0 < quantity (levels ! i)"
    "\<forall>j<i. \<not> (warehouseLocationMap (locationName (levels ! j))
                   = Some (location_pincode nearest) \<and>
                 0 < quantity (levels ! j))"
    by (auto simp: availableInventory_def find_Some_iff)
  from chosen i(2) have f: "availableInventory levels nearest = Some (levels ! i)"
    by simp
  have a: "selectInventory estimatedDate levels nearest
      = availableResponse estimatedDate (levels ! i)"
    using f by (simp add: selectInventory_def)
  have a1: "selectInventory estimatedDate levels nearest
      = \<lparr>statusCode = 200,
         headers = [(''Access-Control-Allow-Origin'', ''*'')],
         body = JSON_stringify (JObject
           [(''message'', JString (''Estimate Delivery '' @ estimatedDate
               @ '',  <br> Dispatch from '' @ locationName (levels ! i) @ ''.''))])\<rparr>"
    by (simp add: a availableResponse_def cors_def)
  have a2: "selectInventory estimatedDate levels nearest \<noteq> outOfStockResponse"
    by (simp add: a availableResponse_def outOfStockResponse_def)
  have a3: "selectInventory estimatedDate levels nearest \<noteq> fallbackResponse estimatedDate other"
    for other
    by (simp add: a availableResponse_def fallbackResponse_def)
  have b: "selectInventory_part_000 levels nearest = availableResponse_part_000 (levels ! i)"
    using f by (simp add: selectInventory_part_000_def)
  have b1: "selectInventory_part_000 levels nearest
      = \<lparr>statusCode = 200,
         headers = [],
         body = JSON_stringify (JObject
           [(''warehouse'', JString (locationName (levels ! i))),
            (''quantity'', JNumber (real_of_int (quantity (levels ! i)))),
            (''message'', JString (''Product is available at ''
               @ locationName (levels ! i) @ ''.''))])\<rparr>"
    by (simp add: b availableResponse_part_000_def plainResponse_def)
  have b2: "selectInventory_part_000 levels nearest \<noteq> outOfStockResponse_part_000"
    by (simp add: b availableResponse_part_000_def outOfStockResponse_part_000_def
        plainResponse_def)
  have b3: "selectInventory_part_000 levels nearest \<noteq> fallbackResponse_part_000 other"
    for other
    by (simp add: b availableResponse_part_000_def fallbackResponse_part_000_def
        plainResponse_def)
  show ?thesis
    using i(1) i(3) i(4) i(5) f a a1 a2 a3 b b1 b2 b3 by blast
qed

theorem nearest_stock_is_dispatched_witness:
  "\<lparr>locationName = ''Ahmedabad Warehouse'', quantity = 4\<rparr> \<in> set sample_levels \<and>
   warehouseLocationMap (locationName \<lparr>locationName = ''Ahmedabad Warehouse'', quantity = 4\<rparr>)
     = Some (location_pincode ahmedabad) \<and>
   0 < quantity \<lparr>locationName = ''Ahmedabad Warehouse'', quantity = 4\<rparr> \<and>
   0 < quantity (sample_levels ! 2) \<and>
   availableInventory sample_levels ahmedabad
     = Some \<lparr>locationName = ''Ahmedabad Warehouse'', quantity = 4\<rparr> \<and>
   selectInventory ''Saturday, Nov 7'' sample_levels ahmedabad
     = \<lparr>statusCode = 200,
        headers = [(''Access-Control-Allow-Origin'', ''*'')],
        body = JSON_stringify (JObject
          [(''message'', JString
              ''Estimate Delivery Saturday, Nov 7,  <br> Dispatch from Ahmedabad Warehouse.'')])\<rparr> \<and>
   selectInventory_part_000 sample_levels ahmedabad
     = \<lparr>statusCode = 200,
        headers = [],
        body = JSON_stringify (JObject
          [(''warehouse'', JString ''Ahmedabad Warehouse''),
           (''quantity'', JNumber 4),
           (''message'', JString ''Product is available at Ahmedabad Warehouse.'')])\<rparr>"
proof -
  let ?l = "\<lparr>locationName = ''Ahmedabad Warehouse'', quantity = 4\<rparr>"
  have h1: "?l \<in> set sample_levels"
    by (simp add: sample_levels_def)
  have h2: "warehouseLocationMap (locationName ?l) = Some (location_pincode ahmedabad)"
    by (simp add: warehouseLocationMap_def ahmedabad_def)
  have h3: "0 < quantity ?l"
    by simp
  have other: "0 < quantity (sample_levels ! 2)"
    by (simp add: sample_levels_def)
  from nearest_stock_is_dispatched [OF h1 h2 h3, where estimatedDate = "''Saturday, Nov 7''"]
  obtain i where i:
    "availableInventory sample_levels ahmedabad = Some (sample_levels ! i)"
    "selectInventory ''Saturday, Nov 7'' sample_levels ahmedabad
       = \<lparr>statusCode = 200,
          headers = [(''Access-Control-Allow-Origin'', ''*'')],
          body = JSON_stringify (JObject
            [(''message'', JString (''Estimate Delivery '' @ ''Saturday, Nov 7''
                @ '',  <br> Dispatch from '' @ locationName (sample_levels ! i) @ ''.''))])\<rparr>"
    "selectInventory_part_000 sample_levels ahmedabad
       = \<lparr>statusCode = 200,
          headers = [],
          body = JSON_stringify (JObject
            [(''warehouse'', JString (locationName (sample_levels ! i))),
             (''quantity'', JNumber (real_of_int (quantity (sample_levels ! i)))),
             (''message'', JString (''Product is available at ''
                @ locationName (sample_levels ! i) @ ''.''))])\<rparr>"
    by blast
  have av: "availableInventory sample_levels ahmedabad = Some ?l"
    by (simp add: availableInventory_def sample_levels_def warehouseLocationMap_def
        ahmedabad_def)
  with i(1) have "sample_levels ! i = ?l"
    by simp
  with i(2) i(3) av h1 h2 h3 other show ?thesis by simp
qed

text \<open>
  C4. When the inventory has stock (a record with a quantity above 0) and every record
  with stock is at a location that does not map to the pincode of the nearest warehouse,
  both handlers answer with the fallback response for the first record with stock:
  status code 200 and a body with the fallback message that names the location of that
  record (in the second file also its name and its quantity). That response is not the
  response of the first branch for any record, and not the out-of-stock response.
\<close>

theorem other_stock_is_fallback:
  assumes some: "\<exists>level\<in>set levels. 0 < quantity level"
    and other: "\<forall>level\<in>set levels. 0 < quantity level \<longrightarrow>
        warehouseLocationMap (locationName level) \<noteq> Some (location_pincode nearest)"
  shows "\<exists>i<length levels.
           0 < quantity (levels ! i) \<and> (\<forall>j<i. \<not> 0 < quantity (levels ! j)) \<and>
           availableInventory levels nearest = None \<and>
           fallbackInventory levels = Some (levels ! i) \<and>
           selectInventory estimatedDate levels nearest
             = fallbackResponse estimatedDate (levels ! i) \<and>
           selectInventory estimatedDate levels nearest
             = \<lparr>statusCode = 200,
                headers = [(''Access-Control-Allow-Origin'', ''*'')],
                body = JSON_stringify (JObject
                  [(''message'', JString (''Estimate Delivery '' @ estimatedDate
                      @ '', <br> Dispatch from '' @ locationName (levels ! i) @ ''.''))])\<rparr> \<and>
           selectInventory estimatedDate levels nearest \<noteq> outOfStockResponse \<and>
           selectInventory_part_000 levels nearest = fallbackResponse_part_000 (levels ! i) \<and>
           selectInventory_part_000 levels nearest
             = \<lparr>statusCode = 200,
                headers = [],
                body = JSON_stringify (JObject
                  [(''warehouse'', JString (locationName (levels ! i))),
                   (''quantity'', JNumber (real_of_int (quantity (levels ! i)))),
                   (''message'', JString
                      (''Product is not available near your pincode but is available at ''
                         @ locationName (levels ! i) @ ''.''))])\<rparr> \<and>
           selectInventory_part_000 levels nearest \<noteq> outOfStockResponse_part_000 \<and>
           (\<forall>level. selectInventory estimatedDate levels nearest
              \<noteq> availableResponse estimatedDate level) \<and>
           (\<forall>level. selectInventory_part_000 levels nearest
              \<noteq> availableResponse_part_000 level)"
proof -
  from other have none: "availableInventory levels nearest = None"
    by (auto simp: availableInventory_def find_None_iff)
  from some have "fallbackInventory levels \<noteq> None"
    by (auto simp: fallbackInventory_def find_None_iff)
  then obtain chosen where chosen: "fallbackInventory levels = Some chosen"
    by blast
  then obtain i where i: "i < length levels" "0 < quantity (levels ! i)" "chosen = levels ! i"
    "\<forall>j<i. \<not> 0 < quantity (levels ! j)"
    by (auto simp: fallbackInventory_def find_Some_iff)
  have a: "selectInventory estimatedDate levels nearest
      = fallbackResponse estimatedDate (levels ! i)"
    using none chosen i(3) by (simp add: selectInventory_def)
  have a1: "selectInventory estimatedDate levels nearest
      = \<lparr>statusCode = 200,
         headers = [(''Access-Control-Allow-Origin'', ''*'')],
         body = JSON_stringify (JObject
           [(''message'', JString (''Estimate Delivery '' @ estimatedDate
               @ '', <br> Dispatch from '' @ locationName (levels ! i) @ ''.''))])\<rparr>"
    by (simp add: a fallbackResponse_def cors_def)
  have a2: "selectInventory estimatedDate levels nearest \<noteq> outOfStockResponse"
    by (simp add: a fallbackResponse_def outOfStockResponse_def)
  have b: "selectInventory_part_000 levels nearest = fallbackResponse_part_000 (levels ! i)"
    using none chosen i(3) by (simp add: selectInventory_part_000_def)
  have b1: "selectInventory_part_000 levels nearest
      = \<lparr>statusCode = 200,
         headers = [],
         body = JSON_stringify (JObject
           [(''warehouse'', JString (locationName (levels ! i))),
            (''quantity'', JNumber (real_of_int (quantity (levels ! i)))),
            (''message'', JString
               (''Product is not available near your pincode but is available at ''
                  @ locationName (levels ! i) @ ''.''))])\<rparr>"
    by (simp add: b fallbackResponse_part_000_def plainResponse_def)
  have b2: "selectInventory_part_000 levels nearest \<noteq> outOfStockResponse_part_000"
    by (simp add: b fallbackResponse_part_000_def outOfStockResponse_part_000_def
        plainResponse_def)
  have c: "selectInventory estimatedDate levels nearest \<noteq> availableResponse estimatedDate level"
    for level
    using availableResponse_neq_fallbackResponse [of estimatedDate level "levels ! i"]
    by (simp add: a)
  have d: "selectInventory_part_000 levels nearest \<noteq> availableResponse_part_000 level"
    for level
    using availableResponse_neq_fallbackResponse_part_000 [of level "levels ! i"]
    by (simp add: b)
  from chosen i(3) have f: "fallbackInventory levels = Some (levels ! i)" by simp
  show ?thesis using i(1) i(2) i(4) none f a a1 a2 b b1 b2 c d by blast
qed

theorem other_stock_is_fallback_witness:
  "(\<exists>level\<in>set sample_levels. 0 < quantity level) \<and>
   availableInventory sample_levels delhi = None \<and>
   fallbackInventory sample_levels
     = Some \<lparr>locationName = ''Ahmedabad Warehouse'', quantity = 4\<rparr> \<and>
   selectInventory ''Saturday, Nov 7'' sample_levels delhi
     = \<lparr>statusCode = 200,
        headers = [(''Access-Control-Allow-Origin'', ''*'')],
        body = JSON_stringify (JObject
          [(''message'', JString
              ''Estimate Delivery Saturday, Nov 7, <br> Dispatch from Ahmedabad Warehouse.'')])\<rparr> \<and>
   selectInventory_part_000 sample_levels delhi
     = \<lparr>statusCode = 200,
        headers = [],
        body = JSON_stringify (JObject
          [(''warehouse'', JString ''Ahmedabad Warehouse''),
           (''quantity'', JNumber 4),
           (''message'', JString
              ''Product is not available near your pincode but is available at Ahmedabad Warehouse.'')])\<rparr>"
proof -
  have h1: "\<exists>level\<in>set sample_levels. 0 < quantity level"
    by (simp add: sample_levels_def)
  have h2: "\<forall>level\<in>set sample_levels. 0 < quantity level \<longrightarrow>
      warehouseLocationMap (locationName level) \<noteq> Some (location_pincode delhi)"
    by (simp add: sample_levels_def warehouseLocationMap_def delhi_def)
  from other_stock_is_fallback [OF h1 h2, where estimatedDate = "''Saturday, Nov 7''"]
  obtain i where i: "i < length sample_levels"
    "availableInventory sample_levels delhi = None"
    "fallbackInventory sample_levels = Some (sample_levels ! i)"
    "selectInventory ''Saturday, Nov 7'' sample_levels delhi
       = \<lparr>statusCode = 200,
          headers = [(''Access-Control-Allow-Origin'', ''*'')],
          body = JSON_stringify (JObject
            [(''message'', JString (''Estimate Delivery '' @ ''Saturday, Nov 7''
                @ '', <br> Dispatch from '' @ locationName (sample_levels ! i) @ ''.''))])\<rparr>"
    "selectInventory_part_000 sample_levels delhi
       = \<lparr>statusCode = 200,
          headers = [],
          body = JSON_stringify (JObject
            [(''warehouse'', JString (locationName (sample_levels ! i))),
             (''quantity'', JNumber (real_of_int (quantity (sample_levels ! i)))),
             (''message'', JString
                (''Product is not available near your pincode but is available at ''
                   @ locationName (sample_levels ! i) @ ''.''))])\<rparr>"
    by blast
  have fb: "fallbackInventory sample_levels
      = Some \<lparr>locationName = ''Ahmedabad Warehouse'', quantity = 4\<rparr>"
    by (simp add: fallbackInventory_def sample_levels_def)
  with i(3) have "sample_levels ! i = \<lparr>locationName = ''Ahmedabad Warehouse'', quantity = 4\<rparr>"
    by simp
  with i(2) i(4) i(5) fb h1 show ?thesis by simp
qed

text \<open>
  C5. When no record of the inventory has a quantity above 0 (the empty inventory
  included), both handlers answer with the out-of-stock response: status code 200 and a
  JSON body whose only field is \<open>error\<close>.
\<close>

theorem no_stock_is_out_of_stock:
  assumes "\<forall>level\<in>set levels. \<not> 0 < quantity level"
  shows "selectInventory estimatedDate levels nearest = outOfStockResponse \<and>
         selectInventory_part_000 levels nearest = outOfStockResponse_part_000 \<and>
         statusCode outOfStockResponse = 200 \<and>
         body outOfStockResponse = JSON_stringify (JObject
           [(''error'', JString ''Product is out of stock at all locations.'')]) \<and>
         statusCode outOfStockResponse_part_000 = 200 \<and>
         body outOfStockResponse_part_000 = JSON_stringify (JObject
           [(''error'', JString ''Product is out of stock at all locations.'')])"
proof -
  from assms have "fallbackInventory levels = None"
    by (auto simp: fallbackInventory_def find_None_iff)
  moreover from assms have "availableInventory levels nearest = None"
    by (auto simp: availableInventory_def find_None_iff)
  ultimately show ?thesis
    by (simp add: selectInventory_def selectInventory_part_000_def outOfStockResponse_def
        outOfStockResponse_part_000_def plainResponse_def)
qed

theorem no_stock_is_out_of_stock_witness:
  "\<not> 0 < quantity \<lparr>locationName = ''Delhi Warehouse'', quantity = 0\<rparr> \<and>
   selectInventory ''Saturday, Nov 7'' [\<lparr>locationName = ''Delhi Warehouse'', quantity = 0\<rparr>] delhi
     = outOfStockResponse \<and>
   selectInventory_part_000 [] delhi = outOfStockResponse_part_000"
proof -
  have h1: "\<forall>level\<in>set [\<lparr>locationName = ''Delhi Warehouse'', quantity = 0\<rparr>].
      \<not> 0 < quantity level"
    by simp
  have h2: "\<forall>level\<in>set ([] :: inventoryLevel list). \<not> 0 < quantity level"
    by simp
  from no_stock_is_out_of_stock [OF h1, where estimatedDate = "''Saturday, Nov 7''" and nearest = delhi]
  have a: "selectInventory ''Saturday, Nov 7''
      [\<lparr>locationName = ''Delhi Warehouse'', quantity = 0\<rparr>] delhi = outOfStockResponse"
    by (rule conjunct1)
  from no_stock_is_out_of_stock [OF h2, where estimatedDate = "''Saturday, Nov 7''" and nearest = delhi]
  have b: "selectInventory_part_000 [] delhi = outOfStockResponse_part_000"
    by (rule conjunct1 [OF conjunct2])
  have z: "\<not> 0 < quantity \<lparr>locationName = ''Delhi Warehouse'', quantity = 0\<rparr>"
    by simp
  show ?thesis by (rule conjI [OF z conjI [OF a b]])
qed

text \<open>
  C10. A record that either tier picks is a record of the inventory with a quantity
  above 0; so the answer of the selection is the out-of-stock response, or the response
  of the first branch or the fallback response for a record of the inventory whose
  quantity is above 0 (the second handler reports that quantity in its body).
\<close>

theorem dispatched_record_has_stock:
  "(availableInventory levels nearest = Some level \<longrightarrow>
      level \<in> set levels \<and> 0 < quantity level) \<and>
   (fallbackInventory levels = Some level \<longrightarrow>
      level \<in> set levels \<and> 0 < quantity level) \<and>
   (selectInventory estimatedDate levels nearest = outOfStockResponse \<or>
    (\<exists>chosen\<in>set levels. 0 < quantity chosen \<and>
       (selectInventory estimatedDate levels nearest = availableResponse estimatedDate chosen \<or>
        selectInventory estimatedDate levels nearest = fallbackResponse estimatedDate chosen))) \<and>
   (selectInventory_part_000 levels nearest = outOfStockResponse_part_000 \<or>
    (\<exists>chosen\<in>set levels. 0 < quantity chosen \<and>
       (selectInventory_part_000 levels nearest = availableResponse_part_000 chosen \<or>
        selectInventory_part_000 levels nearest = fallbackResponse_part_000 chosen)))"
  using availableInventory_Some [of levels nearest level] fallbackInventory_Some [of levels level]
    selectInventory_cases [of estimatedDate levels nearest]
    selectInventory_part_000_cases [of levels nearest]
  by blast

theorem dispatched_record_has_stock_witness:
  "fallbackInventory sample_levels
     = Some \<lparr>locationName = ''Ahmedabad Warehouse'', quantity = 4\<rparr> \<and>
   \<lparr>locationName = ''Ahmedabad Warehouse'', quantity = 4\<rparr> \<in> set sample_levels \<and>
   0 < quantity \<lparr>locationName = ''Ahmedabad Warehouse'', quantity = 4\<rparr> \<and>
   availableInventory sample_levels delhi = None"
proof -
  let ?l = "\<lparr>locationName = ''Ahmedabad Warehouse'', quantity = 4\<rparr>"
  have f: "fallbackInventory sample_levels = Some ?l"
    by (simp add: fallbackInventory_def sample_levels_def)
  have n: "availableInventory sample_levels delhi = None"
    by (simp add: availableInventory_def sample_levels_def warehouseLocationMap_def delhi_def)
  from dispatched_record_has_stock
    [where levels = sample_levels and nearest = delhi and level = ?l
       and estimatedDate = "''Saturday, Nov 7''"]
  have "fallbackInventory sample_levels = Some ?l \<longrightarrow>
      ?l \<in> set sample_levels \<and> 0 < quantity ?l"
    by (rule conjunct1 [OF conjunct2])
  with f have "?l \<in> set sample_levels \<and> 0 < quantity ?l" by (rule rev_mp)
  with f n show ?thesis by blast
qed

section \<open>The handlers\<close>

text \<open>
  C7. For every event that is not a CORS preflight (\<open>httpMethod\<close> is not
  \<open>OPTIONS\<close>) and in which \<open>pincode\<close> or \<open>productId\<close> is missing or empty,
  the handler of checkPincode.js answers 400 with the error message and issues no
  outbound call, whatever the other parameter is; so does the handler of the second file,
  for every event that has a \<open>queryStringParameters\<close> object.
\<close>

theorem missing_parameter_is_rejected:
  assumes "js_not (q ''pincode'') \<or> js_not (q ''productId'')"
  shows "(httpMethod event \<noteq> ''OPTIONS'' \<and> queryStringParameters event = Some q \<longrightarrow>
            handler w event
              = (Inr (errorResponse 400 ''Missing pincode or productId''), [])) \<and>
         (httpMethod event \<noteq> ''OPTIONS'' \<and> queryStringParameters event = None \<longrightarrow>
            handler w event
              = (Inr (errorResponse 400 ''Missing pincode or productId''), [])) \<and>
         (queryStringParameters event = Some q \<longrightarrow>
            handler_part_000 w event
              = (Inr (plainResponse 400 (JObject
                   [(''error'', JString ''Missing pincode or productId'')])), [])) \<and>
         statusCode (errorResponse 400 ''Missing pincode or productId'') = 400 \<and>
         statusCode (plainResponse 400 (JObject
           [(''error'', JString ''Missing pincode or productId'')])) = 400"
  using assms
  by (auto simp: handler_def handler_part_000_def js_not_def errorResponse_def
      plainResponse_def Let_def)

theorem missing_parameter_is_rejected_witness:
  "js_not ([''pincode'' \<mapsto> ''110001''] ''productId'') \<and>
   handler sample_world
     \<lparr>httpMethod = ''GET'', queryStringParameters = Some [''pincode'' \<mapsto> ''110001'']\<rparr>
     = (Inr (errorResponse 400 ''Missing pincode or productId''), []) \<and>
   handler_part_000 sample_world
     \<lparr>httpMethod = ''GET'', queryStringParameters = Some [''pincode'' \<mapsto> ''110001'']\<rparr>
     = (Inr (plainResponse 400 (JObject
          [(''error'', JString ''Missing pincode or productId'')])), [])"
proof -
  let ?q = "[''pincode'' \<mapsto> ''110001'']"
  let ?ev = "\<lparr>httpMethod = ''GET'', queryStringParameters = Some ?q\<rparr>"
  have h: "js_not (?q ''productId'')"
    by (simp add: js_not_def)
  then have d: "js_not (?q ''pincode'') \<or> js_not (?q ''productId'')" ..
  note t = missing_parameter_is_rejected [OF d, where w = sample_world and event = ?ev]
  have m: "httpMethod ?ev \<noteq> ''OPTIONS'' \<and> queryStringParameters ?ev = Some ?q"
    by simp
  from t m have a: "handler sample_world ?ev
      = (Inr (errorResponse 400 ''Missing pincode or productId''), [])"
    by blast
  from t m have b: "handler_part_000 sample_world ?ev
      = (Inr (plainResponse 400 (JObject
           [(''error'', JString ''Missing pincode or productId'')])), [])"
    by blast
  show ?thesis by (rule conjI [OF h conjI [OF a b]])
qed

text \<open>
  The handler of checkPincode.js answers a preflight before it looks at the parameters:
  an \<open>OPTIONS\<close> request without parameters gets 204 and not 400.
\<close>

theorem missing_parameter_is_rejected_counterexample:
  "js_not (Map.empty ''pincode'') \<and>
   handler sample_world \<lparr>httpMethod = ''OPTIONS'', queryStringParameters = Some Map.empty\<rparr>
     = (Inr \<lparr>statusCode = 204,
             headers =
               [(''Access-Control-Allow-Origin'', ''*''),
                (''Access-Control-Allow-Methods'', ''GET, POST, OPTIONS''),
                (''Access-Control-Allow-Headers'', ''Content-Type'')],
             body = Text []\<rparr>, [])"
  by (simp add: js_not_def handler_def)

text \<open>The status codes of the responses, and the exceptions that the handlers catch.\<close>

lemma statusCode_selectInventory:
  "statusCode (selectInventory estimatedDate levels nearest) = 200"
  by (simp add: selectInventory_def availableResponse_def fallbackResponse_def
      outOfStockResponse_def split: option.splits)

lemma statusCode_selectInventory_part_000:
  "statusCode (selectInventory_part_000 levels nearest) = 200"
  by (simp add: selectInventory_part_000_def availableResponse_part_000_def
      fallbackResponse_part_000_def outOfStockResponse_part_000_def plainResponse_def
      split: option.splits)

lemma handler_product_status:
  "handler_product w userCoordinates b = Inr r \<Longrightarrow> statusCode r = 200 \<or> statusCode r = 404"
  by (auto simp: handler_product_def errorResponse_def statusCode_selectInventory
      split: option.splits)

lemma handler_try_status:
  "handler_try w pincode productId = (Inr r, calls) \<Longrightarrow>
   statusCode r = 200 \<or> statusCode r = 404"
  by (auto simp: handler_try_def getCoordinatesFromPincode_def errorResponse_def
      split: option.splits sum.splits dest: handler_product_status)

text \<open>
  The handler of checkPincode.js answers every event, with one of the five status codes:
  every exception is thrown inside its \<^verbatim>\<open>try\<close>.
\<close>

lemma handler_responds:
  "\<exists>r calls. handler w event = (Inr r, calls) \<and> statusCode r \<in> {200, 204, 400, 404, 500}"
proof (cases "httpMethod event = ''OPTIONS''")
  case True
  then show ?thesis by (simp add: handler_def)
next
  case False
  let ?params = "case queryStringParameters event of None \<Rightarrow> Map.empty | Some q \<Rightarrow> q"
  show ?thesis
  proof (cases "js_not (?params ''pincode'') \<or> js_not (?params ''productId'')")
    case True
    with False show ?thesis by (simp add: handler_def errorResponse_def Let_def)
  next
    case valid: False
    obtain res calls where t:
      "handler_try w (the (?params ''pincode'')) (the (?params ''productId'')) = (res, calls)"
      by (cases "handler_try w (the (?params ''pincode'')) (the (?params ''productId''))")
    show ?thesis
    proof (cases res)
      case (Inl e)
      with False valid t show ?thesis by (simp add: handler_def Let_def errorResponse_def)
    next
      case (Inr r)
      with t have "statusCode r = 200 \<or> statusCode r = 404"
        using handler_try_status [of w _ _ r calls] by simp
      with False valid t Inr show ?thesis by (auto simp add: handler_def Let_def)
    qed
  qed
qed

lemma handler_product_part_000_status:
  "handler_product_part_000 w userCoordinates response_ok b = Inr r \<Longrightarrow>
   statusCode r = 200 \<or> statusCode r = 404 \<or> statusCode r = 500"
  by (auto simp: handler_product_part_000_def plainResponse_def
      statusCode_selectInventory_part_000 split: option.splits if_splits)

lemma handler_try_part_000_status:
  "handler_try_part_000 w pincode productId = (Inr r, calls) \<Longrightarrow>
   statusCode r = 200 \<or> statusCode r = 404 \<or> statusCode r = 500"
  by (auto simp: handler_try_part_000_def getCoordinatesFromPincode_part_000_def
      split: option.splits sum.splits dest: handler_product_part_000_status)

text \<open>So does the handler of the second file when the event has query parameters.\<close>

lemma handler_part_000_responds:
  assumes "queryStringParameters event = Some q"
  shows "\<exists>r calls. handler_part_000 w event = (Inr r, calls) \<and>
           statusCode r \<in> {200, 400, 404, 500}"
proof (cases "js_not (q ''pincode'') \<or> js_not (q ''productId'')")
  case True
  with assms show ?thesis by (simp add: handler_part_000_def plainResponse_def Let_def)
next
  case valid: False
  obtain res calls where t:
    "handler_try_part_000 w (the (q ''pincode'')) (the (q ''productId'')) = (res, calls)"
    by (cases "handler_try_part_000 w (the (q ''pincode'')) (the (q ''productId''))")
  show ?thesis
  proof (cases res)
    case (Inl e)
    with assms valid t show ?thesis by (simp add: handler_part_000_def Let_def plainResponse_def)
  next
    case (Inr r)
    with t have "statusCode r = 200 \<or> statusCode r = 404 \<or> statusCode r = 500"
      using handler_try_part_000_status [of w _ _ r calls] by simp
    with assms valid t Inr show ?thesis by (auto simp add: handler_part_000_def Let_def)
  qed
qed

text \<open>
  C8. Every event is to get a response with a status code among 200, 204, 400, 404 and
  500, and no exception is to leave the handler. The handler of the second file reads
  \<open>pincode\<close> and \<open>productId\<close> from \<open>event.queryStringParameters\<close> outside its
  \<^verbatim>\<open>try\<close>, without the \<^verbatim>\<open>|| {}\<close> that checkPincode.js has: for an event whose
  \<open>queryStringParameters\<close> is \<open>null\<close> it throws a TypeError and issues no
  call, where checkPincode.js answers 400.
\<close>

theorem handler_part_000_throws:
  "queryStringParameters event = None \<Longrightarrow> handler_part_000 w event = (Inl TypeError, [])"
  by (simp add: handler_part_000_def)

theorem handler_part_000_throws_witness:
  "handler_part_000 sample_world \<lparr>httpMethod = ''GET'', queryStringParameters = None\<rparr>
     = (Inl TypeError, []) \<and>
   handler sample_world \<lparr>httpMethod = ''GET'', queryStringParameters = None\<rparr>
     = (Inr (errorResponse 400 ''Missing pincode or productId''), [])"
proof
  show "handler_part_000 sample_world \<lparr>httpMethod = ''GET'', queryStringParameters = None\<rparr>
     = (Inl TypeError, [])"
    by (rule handler_part_000_throws) simp
  show "handler sample_world \<lparr>httpMethod = ''GET'', queryStringParameters = None\<rparr>
     = (Inr (errorResponse 400 ''Missing pincode or productId''), [])"
    by (simp add: handler_def js_not_def)
qed

text \<open>
  When both calls succeed and the scan finds a warehouse, the answer of each handler is
  the answer of its selection, after one call to each service.
\<close>

lemma handler_selects:
  assumes "httpMethod event \<noteq> ''OPTIONS''"
    and "queryStringParameters event = Some q"
    and "q ''pincode'' = Some pincode" and "pincode \<noteq> []"
    and "q ''productId'' = Some productId" and "productId \<noteq> []"
    and "axios_get w (nominatim_url pincode) = Inr (place # places)"
    and "axios_post w SHOPIFY_API_URL productId = Inr (Some b)"
    and "data b = Some d" and "product d = Some p"
    and "findNearestLocation (getDistance w)
           \<lparr>latitude = parseFloat w (lat place), longitude = parseFloat w (lon place)\<rparr>
           warehouseCoordinates = Some nearest"
  shows "handler w event =
           (Inr (selectInventory (estimatedDeliveryDate w) (inventoryLevels p) nearest),
            [Get (nominatim_url pincode), Post SHOPIFY_API_URL productId])"
  using assms
  by (simp add: handler_def js_not_def handler_try_def getCoordinatesFromPincode_def
      getCoordinatesFromPincode_try_def handler_product_def)

lemma handler_part_000_selects:
  assumes "queryStringParameters event = Some q"
    and "q ''pincode'' = Some pincode" and "pincode \<noteq> []"
    and "q ''productId'' = Some productId" and "productId \<noteq> []"
    and "fetch_get w (nominatim_url pincode) = Inr geo" and "json geo = Inr (place # places)"
    and "fetch_post w SHOPIFY_API_URL productId = Inr response"
    and "ok response" and "json response = Inr (Some b)"
    and "data b = Some d" and "product d = Some p"
    and "findNearestLocation (getDistance w)
           \<lparr>latitude = parseFloat w (lat place), longitude = parseFloat w (lon place)\<rparr>
           warehouseCoordinates = Some nearest"
  shows "handler_part_000 w event =
           (Inr (selectInventory_part_000 (inventoryLevels p) nearest),
            [Get (nominatim_url pincode), Post SHOPIFY_API_URL productId])"
  using assms
  by (simp add: handler_part_000_def js_not_def handler_try_part_000_def
      getCoordinatesFromPincode_part_000_def getCoordinatesFromPincode_try_part_000_def
      handler_product_part_000_def)

lemma handler_example:
  "handler sample_world
     \<lparr>httpMethod = ''GET'',
      queryStringParameters = Some [''pincode'' \<mapsto> ''110001'', ''productId'' \<mapsto> ''gid://1'']\<rparr>
   = (Inr (fallbackResponse ''Saturday, Nov 7''
             \<lparr>locationName = ''Ahmedabad Warehouse'', quantity = 4\<rparr>),
      [Get (nominatim_url ''110001''), Post SHOPIFY_API_URL ''gid://1''])"
  by (simp add: handler_def js_not_def handler_try_def getCoordinatesFromPincode_def
      getCoordinatesFromPincode_try_def sample_world_def handler_product_def
      Object_entries_warehouseCoordinates findNearestLocation_def forEach_callback_def
      sample_distance_def selectInventory_def inventoryLevels_def sample_product_def
      availableInventory_def fallbackInventory_def warehouseLocationMap_def)

text \<open>
  With a geocoding answer that \<^verbatim>\<open>parseFloat\<close> cannot read, the coordinates of the
  user are \<open>NaN\<close>, the scan finds no warehouse in the registry of four, and the
  handler answers 404.
\<close>

lemma handler_unparsed_example:
  "handler unparsed_world
     \<lparr>httpMethod = ''GET'',
      queryStringParameters = Some [''pincode'' \<mapsto> ''110001'', ''productId'' \<mapsto> ''gid://1'']\<rparr>
   = (Inr (errorResponse 404 ''No warehouse found near the provided pincode.''),
      [Get (nominatim_url ''110001''), Post SHOPIFY_API_URL ''gid://1''])"
  by (simp add: handler_def js_not_def handler_try_def getCoordinatesFromPincode_def
      getCoordinatesFromPincode_try_def unparsed_world_def sample_world_def handler_product_def
      Object_entries_warehouseCoordinates findNearestLocation_def forEach_callback_def
      sample_distance_def)

end
